theory Spec2Isabelle
  imports Complex_Main
begin

text \<open>
  The report pipeline of the App Store Connect server: decompression of a response body,
  the parsers of the tab-separated sales, subscription and financial reports with their
  derived money fields, the aggregation of parsed rows into revenue metrics, the monthly
  fan-out over the days of a month, and the fiscal calendar of the financial reports.
  Each function of \<open>FinanceService\<close>, \<open>SubscriptionService\<close> and \<open>FinanceReportService\<close> that
  is modelled keeps its name; where two services have a function of the same name, the one
  of \<open>SubscriptionService\<close> carries the prefix \<open>sub_\<close>.
\<close>

section \<open>JavaScript values used by the report pipeline\<close>

text \<open>
  The services compute with JavaScript numbers and strings. A finite number is modelled
  by the rational it denotes (IEEE rounding and overflow are left out: sums and products
  are exact), next to the three special values a report field can produce. A string is a
  list of 8-bit code units; code units above 255 are outside the model.
\<close>

datatype jsnum = Fin rat | PInf | NInf | NaN

fun js_neg :: "jsnum \<Rightarrow> jsnum" where
  "js_neg (Fin a) = Fin (- a)"
| "js_neg PInf = NInf"
| "js_neg NInf = PInf"
| "js_neg NaN = NaN"

fun js_add :: "jsnum \<Rightarrow> jsnum \<Rightarrow> jsnum" where
  "js_add NaN _ = NaN"
| "js_add _ NaN = NaN"
| "js_add (Fin a) (Fin b) = Fin (a + b)"
| "js_add PInf NInf = NaN"
| "js_add NInf PInf = NaN"
| "js_add PInf _ = PInf"
| "js_add NInf _ = NInf"
| "js_add (Fin a) PInf = PInf"
| "js_add (Fin a) NInf = NInf"

definition js_sub :: "jsnum \<Rightarrow> jsnum \<Rightarrow> jsnum" where
  "js_sub a b = js_add a (js_neg b)"

fun js_sign_pos :: "jsnum \<Rightarrow> bool option" where
  "js_sign_pos (Fin a) = (if a = 0 then None else Some (0 < a))"
| "js_sign_pos PInf = Some True"
| "js_sign_pos NInf = Some False"
| "js_sign_pos NaN = None"

fun js_mul :: "jsnum \<Rightarrow> jsnum \<Rightarrow> jsnum" where
  "js_mul NaN _ = NaN"
| "js_mul _ NaN = NaN"
| "js_mul (Fin a) (Fin b) = Fin (a * b)"
| "js_mul a b =
     (case (js_sign_pos a, js_sign_pos b) of
        (Some p, Some q) \<Rightarrow> (if p = q then PInf else NInf)
      | _ \<Rightarrow> NaN)"

text \<open>\<open>a < b\<close> and \<open>a > b\<close>: every comparison with \<open>NaN\<close> is false.\<close>

fun js_lt :: "jsnum \<Rightarrow> jsnum \<Rightarrow> bool" where
  "js_lt NaN _ = False"
| "js_lt _ NaN = False"
| "js_lt (Fin a) (Fin b) = (a < b)"
| "js_lt (Fin a) PInf = True"
| "js_lt (Fin a) NInf = False"
| "js_lt PInf _ = False"
| "js_lt NInf NInf = False"
| "js_lt NInf _ = True"

definition js_gt :: "jsnum \<Rightarrow> jsnum \<Rightarrow> bool" where
  "js_gt a b = js_lt b a"

text \<open>Truthiness of a number: \<open>0\<close> and \<open>NaN\<close> are falsy.\<close>

fun js_truthy :: "jsnum \<Rightarrow> bool" where
  "js_truthy (Fin a) = (a \<noteq> 0)"
| "js_truthy NaN = False"
| "js_truthy _ = True"

text \<open>\<open>x || y\<close> on numbers.\<close>

definition js_or :: "jsnum \<Rightarrow> jsnum \<Rightarrow> jsnum" where
  "js_or x y = (if js_truthy x then x else y)"

text \<open>
  \<open>a / b\<close>. The sign of a zero divisor is not modelled: every zero is \<open>+0\<close>.
\<close>

fun js_div :: "jsnum \<Rightarrow> jsnum \<Rightarrow> jsnum" where
  "js_div NaN _ = NaN"
| "js_div _ NaN = NaN"
| "js_div (Fin a) (Fin b) =
     (if b \<noteq> 0 then Fin (a / b) else if a = 0 then NaN else if 0 < a then PInf else NInf)"
| "js_div (Fin a) _ = Fin 0"
| "js_div PInf (Fin b) = (if 0 \<le> b then PInf else NInf)"
| "js_div NInf (Fin b) = (if 0 \<le> b then NInf else PInf)"
| "js_div _ _ = NaN"

text \<open>\<open>Math.round\<close>: to the nearest integer, halves upwards.\<close>

fun js_round :: "jsnum \<Rightarrow> jsnum" where
  "js_round (Fin a) = Fin (of_int \<lfloor>a + 1 / 2\<rfloor>)"
| "js_round x = x"

subsection \<open>Strings\<close>

text \<open>
  White space as \<open>String.prototype.trim\<close> and \<open>parseFloat\<close> see it, among the code
  units below 256: tab, line feed, vertical tab, form feed, carriage return, space and
  the no-break space.
\<close>

definition is_space :: "char \<Rightarrow> bool" where
  "is_space c = (of_char c \<in> {9, 10, 11, 12, 13, 32, 160 :: nat})"

definition trimStart :: "string \<Rightarrow> string" where
  "trimStart s = dropWhile is_space s"

definition trim :: "string \<Rightarrow> string" where
  "trim s = rev (dropWhile is_space (rev (dropWhile is_space s)))"

text \<open>\<open>s.split(c)\<close> for a one-character separator: the empty string gives one empty field.\<close>

fun js_split :: "char \<Rightarrow> string \<Rightarrow> string list" where
  "js_split c [] = [[]]"
| "js_split c (x # xs) =
     (if x = c then [] # js_split c xs
      else (case js_split c xs of [] \<Rightarrow> [[x]] | y # ys \<Rightarrow> (x # y) # ys))"

text \<open>\<open>s.includes(t)\<close>.\<close>

fun str_includes :: "string \<Rightarrow> string \<Rightarrow> bool" where
  "str_includes [] t = (t = [])"
| "str_includes (x # xs) t = (take (length t) (x # xs) = t \<or> str_includes xs t)"

text \<open>\<open>xs.findIndex(p)\<close>: the first index whose element satisfies \<open>p\<close>, \<open>None\<close> for \<open>-1\<close>.\<close>

fun findIndex :: "('a \<Rightarrow> bool) \<Rightarrow> 'a list \<Rightarrow> nat option" where
  "findIndex p [] = None"
| "findIndex p (x # xs) = (if p x then Some 0 else map_option Suc (findIndex p xs))"

text \<open>\<open>xs[i]\<close> on an array: \<open>undefined\<close> out of range.\<close>

definition js_at :: "'a list \<Rightarrow> nat \<Rightarrow> 'a option" where
  "js_at xs i = (if i < length xs then Some (xs ! i) else None)"

text \<open>\<open>s.padStart(n, c)\<close>.\<close>

definition padStart :: "nat \<Rightarrow> char \<Rightarrow> string \<Rightarrow> string" where
  "padStart n c s = replicate (n - length s) c @ s"

definition is_digit :: "char \<Rightarrow> bool" where
  "is_digit c = (48 \<le> (of_char c :: nat) \<and> (of_char c :: nat) \<le> 57)"

definition digit_val :: "char \<Rightarrow> nat" where
  "digit_val c = of_char c - 48"

definition digits_val :: "string \<Rightarrow> int" where
  "digits_val ds = foldl (\<lambda>n c. 10 * n + int (digit_val c)) 0 ds"

definition digit_char :: "nat \<Rightarrow> char" where
  "digit_char n = ''0123456789'' ! (n mod 10)"

fun string_of_nat :: "nat \<Rightarrow> string" where
  "string_of_nat n =
     (if n < 10 then [digit_char n] else string_of_nat (n div 10) @ [digit_char (n mod 10)])"

declare string_of_nat.simps [simp del]

text \<open>\<open>String(n)\<close> for an integral number.\<close>

definition string_of_int :: "int \<Rightarrow> string" where
  "string_of_int i = (if i < 0 then CHR ''-'' # string_of_nat (nat (- i)) else string_of_nat (nat i))"

subsection \<open>Parsing numbers\<close>

text \<open>
  \<open>parseFloat(s)\<close> skips leading white space and reads the longest prefix that is a
  decimal literal: a sign, then \<open>Infinity\<close> or digits with an optional fraction and an
  optional exponent (an exponent counts only when it has digits). Anything after the
  prefix is ignored; without such a prefix the result is \<open>NaN\<close>.
\<close>

definition pow10 :: "int \<Rightarrow> rat" where
  "pow10 e = (if 0 \<le> e then 10 ^ nat e else 1 / 10 ^ nat (- e))"

definition parse_sign :: "string \<Rightarrow> bool \<times> string" where
  "parse_sign s =
     (case s of
        [] \<Rightarrow> (False, [])
      | c # r \<Rightarrow> if c = CHR ''-'' then (True, r) else if c = CHR ''+'' then (False, r) else (False, s))"

definition parse_exponent :: "string \<Rightarrow> int" where
  "parse_exponent r =
     (case r of
        [] \<Rightarrow> 0
      | c # r1 \<Rightarrow>
          if c = CHR ''e'' \<or> c = CHR ''E'' then
            (case parse_sign r1 of (neg, r2) \<Rightarrow>
               let ds = takeWhile is_digit r2 in
               if ds = [] then 0
               else if neg then - digits_val ds else digits_val ds)
          else 0)"

definition parse_unsigned :: "string \<Rightarrow> jsnum" where
  "parse_unsigned s =
     (if take 8 s = ''Infinity'' then PInf
      else
        let ip = takeWhile is_digit s;
            r1 = dropWhile is_digit s;
            dot = (r1 \<noteq> [] \<and> hd r1 = CHR ''.'');
            fp = (if dot then takeWhile is_digit (tl r1) else []);
            r2 = (if dot then dropWhile is_digit (tl r1) else r1)
        in if ip = [] \<and> fp = [] then NaN
           else Fin ((of_int (digits_val ip) + of_int (digits_val fp) / 10 ^ length fp)
                      * pow10 (parse_exponent r2)))"

definition parseFloat :: "string \<Rightarrow> jsnum" where
  "parseFloat s =
     (case parse_sign (trimStart s) of (neg, r) \<Rightarrow>
        if neg then js_neg (parse_unsigned r) else parse_unsigned r)"

text \<open>\<open>parseInt(s, 10)\<close>: leading white space, a sign, then at least one digit.\<close>

definition parseInt10 :: "string \<Rightarrow> jsnum" where
  "parseInt10 s =
     (case parse_sign (trimStart s) of (neg, r) \<Rightarrow>
        let ds = takeWhile is_digit r in
        if ds = [] then NaN
        else if neg then Fin (- of_int (digits_val ds)) else Fin (of_int (digits_val ds)))"

text \<open>
  \<open>a || b\<close> where \<open>a\<close> is a property read (\<open>undefined\<close> when absent) and \<open>b\<close> a string:
  \<open>undefined\<close> and the empty string are falsy.
\<close>

definition str_truthy :: "string option \<Rightarrow> bool" where
  "str_truthy a = (case a of None \<Rightarrow> False | Some s \<Rightarrow> s \<noteq> [])"

definition str_or :: "string option \<Rightarrow> string \<Rightarrow> string" where
  "str_or a b = (if str_truthy a then the a else b)"

text \<open>
  \<open>s.toUpperCase()\<close> on code units below 256: the ASCII and Latin-1 small letters move
  down by 32 and the sharp s becomes \<open>SS\<close>; the two letters whose capitals lie above 255
  (micro sign, y with diaeresis) are outside this string model and stay.
\<close>

definition upper_char :: "char \<Rightarrow> string" where
  "upper_char c =
     (let n = (of_char c :: nat) in
      if (97 \<le> n \<and> n \<le> 122) \<or> (224 \<le> n \<and> n \<le> 254 \<and> n \<noteq> 247) then [char_of (n - 32)]
      else if n = 223 then ''SS''
      else [c])"

definition toUpperCase :: "string \<Rightarrow> string" where
  "toUpperCase s = concat (map upper_char s)"

section \<open>Payloads and decompression\<close>

text \<open>
  A response body is a \<open>Buffer\<close> of bytes, a string, or some other JSON value, which the
  services only ever pass to \<open>JSON.stringify\<close> and which is therefore kept as its
  serialisation. \<open>gunzipSync\<close> and the UTF-8 decoder of \<open>Buffer.toString\<close> belong to the
  runtime and are parameters; \<open>gunzipSync\<close> throws on a malformed stream, which is the
  \<open>Inl\<close> of its result. An exception is the \<open>Inl\<close> of a result throughout, carrying the
  message of the error.
\<close>

datatype payload = Buffer "char list" | Str string | Json string

record runtime =
  gunzipSync :: "char list \<Rightarrow> string + char list"
  utf8 :: "char list \<Rightarrow> string"

text \<open>\<open>try { body } catch (error) { handler }\<close>.\<close>

definition try_catch :: "('e + 'a) \<Rightarrow> ('e \<Rightarrow> 'e + 'a) \<Rightarrow> 'e + 'a" where
  "try_catch body handler = (case body of Inl e \<Rightarrow> handler e | Inr v \<Rightarrow> Inr v)"

text \<open>\<open>gunzipSync(b).toString('utf-8')\<close>.\<close>

definition gunzip_text :: "runtime \<Rightarrow> char list \<Rightarrow> string + string" where
  "gunzip_text rt b = (case gunzipSync rt b of Inl e \<Rightarrow> Inl e | Inr d \<Rightarrow> Inr (utf8 rt d))"

text \<open>\<open>data.length > 2 && data[0] === 0x1f && data[1] === 0x8b\<close> on a buffer.\<close>

definition gzip_magic :: "char list \<Rightarrow> bool" where
  "gzip_magic b = (length b > 2 \<and> js_at b 0 = Some (CHR 0x1F) \<and> js_at b 1 = Some (CHR 0x8B))"

text \<open>\<open>s.charCodeAt(i)\<close>: \<open>None\<close> is the \<open>NaN\<close> of an index out of range.\<close>

definition charCodeAt :: "string \<Rightarrow> nat \<Rightarrow> nat option" where
  "charCodeAt s i = map_option of_char (js_at s i)"

text \<open>
  \<open>Buffer.from(s, 'binary')\<close> takes the low byte of every code unit; the code units of
  this string model are bytes already.
\<close>

definition buffer_from_binary :: "string \<Rightarrow> char list" where
  "buffer_from_binary s = s"

text \<open>\<open>JSON.stringify\<close> of a string: quotes, with the escapes of \<open>QuoteJSONString\<close>.\<close>

definition hex_digit :: "nat \<Rightarrow> char" where
  "hex_digit n = ''0123456789abcdef'' ! (n mod 16)"

definition json_escape :: "char \<Rightarrow> string" where
  "json_escape c =
     (let n = (of_char c :: nat) in
      if n = 8 then [CHR 0x5C, CHR ''b'']
      else if n = 9 then [CHR 0x5C, CHR ''t'']
      else if n = 10 then [CHR 0x5C, CHR ''n'']
      else if n = 12 then [CHR 0x5C, CHR ''f'']
      else if n = 13 then [CHR 0x5C, CHR ''r'']
      else if n = 34 then [CHR 0x5C, CHR 0x22]
      else if n = 92 then [CHR 0x5C, CHR 0x5C]
      else if n < 32 then [CHR 0x5C, CHR ''u'', CHR ''0'', CHR ''0'', hex_digit (n div 16), hex_digit n]
      else [c])"

definition json_quote :: "string \<Rightarrow> string" where
  "json_quote s = [CHR 0x22] @ concat (map json_escape s) @ [CHR 0x22]"

subsection \<open>FinanceService.decompressIfNeeded\<close>

definition decompressIfNeeded :: "runtime \<Rightarrow> payload \<Rightarrow> string + string" where
  "decompressIfNeeded rt data =
     (case data of
        Buffer b \<Rightarrow>
          if gzip_magic b then
            try_catch (gunzip_text rt b) (\<lambda>error. Inr (utf8 rt b))
          else Inr (utf8 rt b)
      | Str s \<Rightarrow>
          if charCodeAt s 0 = Some 0x1F \<and> charCodeAt s 1 = Some 0x8B then
            try_catch (gunzip_text rt (buffer_from_binary s)) (\<lambda>error. Inr s)
          else Inr s
      | Json j \<Rightarrow> Inr j)"

subsection \<open>SubscriptionService.decompressIfNeeded\<close>

text \<open>
  Here the string branch has no \<open>return data\<close> after the magic test: a string that is not
  gzip falls through to \<open>JSON.stringify(data)\<close>.
\<close>

definition sub_decompressIfNeeded :: "runtime \<Rightarrow> payload \<Rightarrow> string + string" where
  "sub_decompressIfNeeded rt data =
     (case data of
        Buffer b \<Rightarrow>
          if gzip_magic b then
            try_catch (gunzip_text rt b) (\<lambda>error. Inr (utf8 rt b))
          else Inr (utf8 rt b)
      | Str s \<Rightarrow>
          if length s > 2 \<and> charCodeAt s 0 = Some 0x1F \<and> charCodeAt s 1 = Some 0x8B then
            try_catch (gunzip_text rt (buffer_from_binary s)) (\<lambda>error. Inr s)
          else Inr (json_quote s)
      | Json j \<Rightarrow> Inr j)"

section \<open>Tab-separated reports\<close>

definition NL :: char where
  "NL = CHR 0x0A"

definition TAB :: char where
  "TAB = CHR 0x09"

text \<open>\<open>content.split('\n').filter(l => l.trim())\<close>: the lines that are not blank.\<close>

definition report_lines :: "string \<Rightarrow> string list" where
  "report_lines content = filter (\<lambda>l. trim l \<noteq> []) (js_split NL content)"

text \<open>
  The row object of one data line:
  \<open>headers.forEach((header, idx) => { row[header] = values[idx] ? values[idx].trim() : '' })\<close>.
  A header that occurs twice keeps the cell of its last column. (Header names that are
  special property names of an object are not modelled.)
\<close>

definition cell :: "string list \<Rightarrow> nat \<Rightarrow> string" where
  "cell values idx =
     (case js_at values idx of None \<Rightarrow> [] | Some v \<Rightarrow> if v \<noteq> [] then trim v else [])"

definition mk_row :: "string list \<Rightarrow> string list \<Rightarrow> (string \<rightharpoonup> string)" where
  "mk_row headers values =
     foldl (\<lambda>row (header, idx). row(header \<mapsto> cell values idx)) Map.empty
       (zip headers [0 ..< length headers])"

section \<open>FinanceService: sales reports\<close>

subsection \<open>Currency table\<close>

definition currencyRates :: "string \<rightharpoonup> rat" where
  "currencyRates = map_of
     [
      (''USD'', 1), (''EUR'', 11/10), (''GBP'', 127/100), (''CAD'', 74/100),
      (''AUD'', 65/100), (''MXN'', 59/1000), (''BRL'', 20/100), (''IDR'', 65/1000000),
      (''INR'', 12/1000), (''JPY'', 67/10000), (''KRW'', 75/100000), (''CNY'', 14/100),
      (''THB'', 28/1000), (''PHP'', 18/1000), (''VND'', 41/1000000), (''MYR'', 21/100),
      (''SGD'', 74/100), (''HKD'', 13/100), (''TWD'', 31/1000), (''NZD'', 61/100),
      (''CHF'', 113/100), (''SEK'', 95/1000), (''NOK'', 93/1000), (''DKK'', 15/100),
      (''PLN'', 25/100), (''RUB'', 11/1000), (''TRY'', 3/100), (''TZS'', 39/100000),
      (''AED'', 27/100), (''SAR'', 27/100), (''ZAR'', 53/1000), (''ILS'', 27/100),
      (''EGP'', 21/1000), (''NGN'', 65/100000), (''KES'', 78/10000), (''PEN'', 27/100),
      (''COP'', 24/100000), (''CLP'', 11/10000), (''ARS'', 1/1000), (''RON'', 22/100)
     ]"

text \<open>\<open>this.currencyRates[currency?.toUpperCase()] || 1\<close>, then \<open>amount * rate\<close>.\<close>

definition convertToUSD :: "jsnum \<Rightarrow> string \<Rightarrow> jsnum" where
  "convertToUSD amount currency =
     (let rate = (case currencyRates (toUpperCase currency) of
                    None \<Rightarrow> 1
                  | Some r \<Rightarrow> if r \<noteq> 0 then r else 1)
      in js_mul amount (Fin rate))"

subsection \<open>parseCSVReport\<close>

text \<open>
  A parsed row keeps the cells under their header names and carries the four derived
  fields \<open>_customerCurrency\<close>, \<open>_customerPrice\<close>, \<open>_proceedsRaw\<close>, \<open>_proceedsUSD\<close>. (In
  the source they are properties of one object, so a column with the name of a derived
  field would be hidden by it; the model keeps cells and derived fields apart.)
\<close>

record sales_row =
  cells :: "string \<rightharpoonup> string"
  customerCurrency :: string
  customerPrice :: jsnum
  proceedsRaw :: jsnum
  proceedsUSD :: jsnum

text \<open>
  The report object. The two early returns of \<open>parseCSVReport\<close> carry only \<open>rows\<close> and
  \<open>summary\<close>: there \<open>reportType\<close> is \<open>None\<close>, and \<open>headers\<close> and \<open>rowCount\<close>, which nobody
  reads in that case, are empty and zero.
\<close>

record sales_report =
  reportType :: "string option"
  headers :: "string list"
  rows :: "sales_row list"
  rowCount :: nat
  summary :: string

text \<open>
  The body of \<open>rows.map(row => ...)\<close>, which derives the four fields. The proceeds are
  kept for a row in USD. For a currency of \<open>highValueCurrencies\<close> they are converted when
  they exceed 1000; for any other currency they are converted unless they exceed twice the
  customer price.
\<close>

definition highValueCurrencies :: "string list" where
  "highValueCurrencies = [''IDR'', ''VND'', ''TZS'', ''KRW'', ''CLP'', ''COP'']"

definition enhanceRow :: "(string \<rightharpoonup> string) \<Rightarrow> sales_row" where
  "enhanceRow row =
     (let cc = str_or (row ''Customer Currency'') ''USD'';
          raw = parseFloat (str_or (row ''Developer Proceeds'') (str_or (row ''Proceeds'') ''0''));
          price = parseFloat (str_or (row ''Customer Price'') ''0'');
          usd =
            (if cc \<in> set highValueCurrencies then
               (if js_gt raw (Fin 1000) then convertToUSD raw cc else raw)
             else if cc \<noteq> ''USD'' then
               (if js_gt raw (js_mul price (Fin 2)) then raw else convertToUSD raw cc)
             else raw)
      in \<lparr>cells = row, customerCurrency = cc, customerPrice = price,
          proceedsRaw = raw, proceedsUSD = usd\<rparr>)"

definition parseCSVReport :: "string \<Rightarrow> string \<Rightarrow> sales_report" where
  "parseCSVReport csvData rtype =
     (if csvData = [] then
        \<lparr>reportType = None, headers = [], rows = [], rowCount = 0,
         summary = ''No data available''\<rparr>
      else
        let lines = report_lines csvData in
        if lines = [] then
          \<lparr>reportType = None, headers = [], rows = [], rowCount = 0,
           summary = ''Empty report''\<rparr>
        else
          let hs = map trim (js_split TAB (hd lines));
              rs = map (\<lambda>l. mk_row hs (js_split TAB l)) (tl lines)
          in \<lparr>reportType = Some rtype, headers = hs, rows = map enhanceRow rs,
              rowCount = length rs,
              summary = ''Parsed '' @ string_of_nat (length rs) @ '' rows from '' @ rtype
                        @ '' report''\<rparr>)"

subsection \<open>calculateRevenueMetricsFromData\<close>

text \<open>
  A \<open>Map\<close> keeps its keys in insertion order: \<open>set\<close> replaces the value of a key in
  place or appends a new entry.
\<close>

fun map_set :: "('k \<times> 'v) list \<Rightarrow> 'k \<Rightarrow> 'v \<Rightarrow> ('k \<times> 'v) list" where
  "map_set [] k v = [(k, v)]"
| "map_set ((k', v') # m) k v = (if k' = k then (k, v) # m else (k', v') # map_set m k v)"

definition map_get :: "('k \<times> 'v) list \<Rightarrow> 'k \<Rightarrow> 'v option" where
  "map_get m k = map_of m k"

record product_data =
  pd_revenue :: jsnum
  pd_units :: jsnum
  pd_title :: string

record country_data =
  cd_revenue :: jsnum
  cd_units :: jsnum

record subscription_metrics =
  activeCount :: jsnum
  newCount :: jsnum
  cancelledCount :: jsnum
  mrr :: jsnum
  arr :: jsnum

record revenue_metrics =
  rm_totalRevenue :: jsnum
  rm_totalUnits :: jsnum
  byProduct :: "(string \<times> product_data) list"
  byCountry :: "(string \<times> country_data) list"
  subscriptions :: "subscription_metrics option"

text \<open>The variables of the row loop.\<close>

record calc_state =
  cs_totalRevenue :: jsnum
  cs_totalUnits :: jsnum
  productMap :: "(string \<times> product_data) list"
  countryMap :: "(string \<times> country_data) list"
  activeSubscribers :: jsnum
  newSubscribers :: jsnum

definition row_revenue :: "sales_row \<Rightarrow> jsnum" where
  "row_revenue row =
     js_or (proceedsUSD row)
       (parseFloat (str_or (cells row ''Developer Proceeds'') (str_or (cells row ''Proceeds'') ''0'')))"

definition row_units :: "sales_row \<Rightarrow> jsnum" where
  "row_units row = parseInt10 (str_or (cells row ''Units'') (str_or (cells row ''Unit Sales'') ''0''))"

definition row_product :: "sales_row \<Rightarrow> string" where
  "row_product row = str_or (cells row ''SKU'') (str_or (cells row ''Product'') ''Unknown'')"

definition row_title :: "sales_row \<Rightarrow> string" where
  "row_title row =
     str_or (cells row ''Title'') (str_or (cells row ''Product Title'') (row_product row))"

definition row_country :: "sales_row \<Rightarrow> string" where
  "row_country row =
     str_or (cells row ''Country Code'') (str_or (cells row ''Territory'') ''Unknown'')"

text \<open>\<open>if (row[k]) { n += parseInt(row[k], 10) || 0 }\<close>.\<close>

definition add_count :: "sales_row \<Rightarrow> string \<Rightarrow> jsnum \<Rightarrow> jsnum" where
  "add_count row k n =
     (if str_truthy (cells row k) then js_add n (js_or (parseInt10 (the (cells row k))) (Fin 0))
      else n)"

definition calc_step :: "calc_state \<Rightarrow> sales_row \<Rightarrow> calc_state" where
  "calc_step st row =
     (let revenue = row_revenue row;
          units = row_units row;
          product = row_product row;
          title = row_title row;
          country = row_country row;
          active = add_count row ''Active Standard Price Subscriptions'' (activeSubscribers st);
          new = add_count row ''New Standard Price Subscriptions'' (newSubscribers st);
          accept = (js_gt revenue (Fin 0) \<and> js_lt revenue (Fin 1000000));
          pm = (if map_get (productMap st) product = None
                then map_set (productMap st) product
                       \<lparr>pd_revenue = Fin 0, pd_units = Fin 0, pd_title = title\<rparr>
                else productMap st);
          productData = the (map_get pm product);
          cm = (if map_get (countryMap st) country = None
                then map_set (countryMap st) country \<lparr>cd_revenue = Fin 0, cd_units = Fin 0\<rparr>
                else countryMap st);
          countryData = the (map_get cm country)
      in \<lparr>cs_totalRevenue = (if accept then js_add (cs_totalRevenue st) revenue else cs_totalRevenue st),
          cs_totalUnits = (if accept then js_add (cs_totalUnits st) units else cs_totalUnits st),
          productMap = map_set pm product
             (productData\<lparr>pd_revenue := js_add (pd_revenue productData) revenue,
                          pd_units := js_add (pd_units productData) units\<rparr>),
          countryMap = map_set cm country
             (countryData\<lparr>cd_revenue := js_add (cd_revenue countryData) revenue,
                          cd_units := js_add (cd_units countryData) units\<rparr>),
          activeSubscribers = active,
          newSubscribers = new\<rparr>)"

definition calc_init :: calc_state where
  "calc_init = \<lparr>cs_totalRevenue = Fin 0, cs_totalUnits = Fin 0, productMap = [], countryMap = [],
                 activeSubscribers = Fin 0, newSubscribers = Fin 0\<rparr>"

text \<open>
  \<open>xs.sort((a, b) => b.revenue - a.revenue)\<close>: a stable sort, largest revenue first. An
  element moves behind its right neighbour exactly when the comparator is positive. (With
  \<open>NaN\<close> among the revenues the comparator is inconsistent and the language leaves the
  order open; this is the order of an insertion sort.)
\<close>

fun insert_desc :: "('a \<Rightarrow> jsnum) \<Rightarrow> 'a \<Rightarrow> 'a list \<Rightarrow> 'a list" where
  "insert_desc key x [] = [x]"
| "insert_desc key x (y # ys) =
     (if js_gt (js_sub (key y) (key x)) (Fin 0) then y # insert_desc key x ys else x # y # ys)"

definition sort_desc :: "('a \<Rightarrow> jsnum) \<Rightarrow> 'a list \<Rightarrow> 'a list" where
  "sort_desc key xs = foldr (insert_desc key) xs []"

text \<open>Lines written with \<open>console.error\<close>, oldest first.\<close>

type_synonym console = "string list"

text \<open>
  The function reads the parsed report and returns the metrics. It has no \<open>console\<close> call
  and no field for a rejected row: the console passes through as it was.
\<close>

definition calculateRevenueMetricsFromData ::
  "sales_report \<Rightarrow> console \<Rightarrow> revenue_metrics \<times> console" where
  "calculateRevenueMetricsFromData parsedData con =
     (if rows parsedData = [] then
        (\<lparr>rm_totalRevenue = Fin 0, rm_totalUnits = Fin 0, byProduct = [], byCountry = [],
          subscriptions = None\<rparr>, con)
      else
        let st = foldl calc_step calc_init (rows parsedData);
            mrr = cs_totalRevenue st
        in (\<lparr>rm_totalRevenue = cs_totalRevenue st,
             rm_totalUnits = cs_totalUnits st,
             byProduct = take 10 (sort_desc (\<lambda>e. pd_revenue (snd e)) (productMap st)),
             byCountry = take 10 (sort_desc (\<lambda>e. cd_revenue (snd e)) (countryMap st)),
             subscriptions =
               (if reportType parsedData = Some ''SUBSCRIPTION'' \<or> js_gt (activeSubscribers st) (Fin 0)
                then Some \<lparr>activeCount = activeSubscribers st,
                           newCount = newSubscribers st,
                           cancelledCount = Fin 0,
                           mrr = js_div (js_round (js_mul mrr (Fin 100))) (Fin 100),
                           arr = js_div (js_round (js_mul (js_mul mrr (Fin 12)) (Fin 100))) (Fin 100)\<rparr>
                else None)\<rparr>, con))"

subsection \<open>getSalesReport\<close>





subsection \<open>getMonthlyRevenue\<close>






text \<open>
  The accumulator \<open>monthlyData\<close>. (\<open>monthName\<close>, a label, is left out.) An entry of
  \<open>highRevenueDays\<close> is the date, the revenue and the number of transactions of the day.
\<close>

record monthly_data =
  md_year :: int
  md_month :: int
  md_totalRevenue :: jsnum
  md_totalTransactions :: nat
  md_daysWithData :: nat
  dailyRevenues :: "jsnum list"
  countryBreakdown :: "(string \<times> jsnum) list"
  productBreakdown :: "(string \<times> jsnum) list"
  currencyBreakdown :: "(string \<times> jsnum) list"
  highRevenueDays :: "(string \<times> jsnum \<times> nat) list"

text \<open>\<open>m.set(k, (m.get(k) || 0) + revenue)\<close>.\<close>

definition breakdown_add :: "(string \<times> jsnum) list \<Rightarrow> string \<Rightarrow> jsnum \<Rightarrow> (string \<times> jsnum) list" where
  "breakdown_add m k revenue =
     map_set m k (js_add (case map_get m k of None \<Rightarrow> Fin 0 | Some v \<Rightarrow> js_or v (Fin 0)) revenue)"

text \<open>The money one row adds to its day: \<open>row._proceedsUSD || 0\<close>.\<close>

definition day_revenue :: "sales_row \<Rightarrow> jsnum" where
  "day_revenue row = js_or (proceedsUSD row) (Fin 0)"

text \<open>The body of \<open>report.rows.forEach\<close>, on \<open>dailyTotal\<close> and the accumulator.\<close>

definition month_row :: "jsnum \<times> monthly_data \<Rightarrow> sales_row \<Rightarrow> jsnum \<times> monthly_data" where
  "month_row acc row =
     (case acc of (dailyTotal, md) \<Rightarrow>
        let revenue = day_revenue row;
            country = str_or (cells row ''Country Code'') ''Unknown'';
            product = str_or (cells row ''Title'') (str_or (cells row ''Product Title'') ''Unknown'');
            currency = str_or (cells row ''Customer Currency'') ''USD''
        in (js_add dailyTotal revenue,
            md\<lparr>countryBreakdown := breakdown_add (countryBreakdown md) country revenue,
               productBreakdown := breakdown_add (productBreakdown md) product revenue,
               currencyBreakdown := breakdown_add (currencyBreakdown md) currency revenue\<rparr>))"







section \<open>SubscriptionService: subscription reports\<close>

text \<open>
  The same parser, but the only derived field is \<open>_proceedsUSD\<close>, set in the row loop to
  \<open>parseFloat(row['Developer Proceeds'] || row['Proceeds'] || '0')\<close>.
\<close>

record sub_row =
  sub_cells :: "string \<rightharpoonup> string"
  sub_proceedsUSD :: jsnum

record sub_report =
  sub_reportType :: "string option"
  sub_headers :: "string list"
  sub_rows :: "sub_row list"
  sub_rowCount :: nat
  sub_summary :: string

definition sub_parseRow :: "string list \<Rightarrow> string list \<Rightarrow> sub_row" where
  "sub_parseRow hs values =
     (let row = mk_row hs values
      in \<lparr>sub_cells = row,
          sub_proceedsUSD =
            parseFloat (str_or (row ''Developer Proceeds'') (str_or (row ''Proceeds'') ''0''))\<rparr>)"

definition sub_parseCSVReport :: "string \<Rightarrow> string \<Rightarrow> sub_report" where
  "sub_parseCSVReport csvData rtype =
     (if csvData = [] then
        \<lparr>sub_reportType = None, sub_headers = [], sub_rows = [], sub_rowCount = 0,
         sub_summary = ''No data available''\<rparr>
      else
        let lines = report_lines csvData in
        if lines = [] then
          \<lparr>sub_reportType = None, sub_headers = [], sub_rows = [], sub_rowCount = 0,
           sub_summary = ''Empty report''\<rparr>
        else
          let hs = map trim (js_split TAB (hd lines));
              rs = map (\<lambda>l. sub_parseRow hs (js_split TAB l)) (tl lines)
          in \<lparr>sub_reportType = Some rtype, sub_headers = hs, sub_rows = rs,
              sub_rowCount = length rs,
              sub_summary = ''Parsed '' @ string_of_nat (length rs) @ '' rows from '' @ rtype
                            @ '' report''\<rparr>)"

section \<open>FinanceReportService: financial reports\<close>

text \<open>
  A row of a financial report: the cells under their header names and \<open>_revenue\<close>, which is
  set only when the report has a revenue column.
\<close>

record finance_row =
  fr_cells :: "string \<rightharpoonup> string"
  fr_revenue :: "jsnum option"

record 'm finance_report =
  fr_headers :: "string list"
  fr_rows :: "finance_row list"
  fr_totalRevenue :: jsnum
  fr_rowCount :: nat
  fr_metadata :: 'm

text \<open>
  The columns \<open>parseFinanceReport\<close> looks for. \<open>currencyIdx\<close> (like \<open>quantityIdx\<close>, left
  out here) is computed and never read afterwards.
\<close>

definition extendedShareIdx :: "string list \<Rightarrow> nat option" where
  "extendedShareIdx hs =
     findIndex (\<lambda>h. h = ''Extended Partner Share'' \<or> str_includes h ''Extended'') hs"

definition partnerShareIdx :: "string list \<Rightarrow> nat option" where
  "partnerShareIdx hs =
     findIndex (\<lambda>h. h = ''Partner Share'' \<or> str_includes h ''Partner Share'') hs"

definition salesReturnIdx :: "string list \<Rightarrow> nat option" where
  "salesReturnIdx hs =
     findIndex (\<lambda>h. h = ''Sales or Return'' \<or> str_includes h ''Sales'') hs"


definition revenueIdx :: "string list \<Rightarrow> nat option" where
  "revenueIdx hs = (case extendedShareIdx hs of Some i \<Rightarrow> Some i | None \<Rightarrow> partnerShareIdx hs)"

text \<open>
  The body of the row loop, on the cells \<open>values = lines[i].split('\t')\<close>: it returns the
  new running total and the row that is pushed. The flag is compared as it stands in the
  line, not trimmed; a flag that is neither \<open>S\<close> nor \<open>R\<close> leaves the total alone.
\<close>

definition processRow ::
  "string list \<Rightarrow> nat option \<Rightarrow> nat option \<Rightarrow> jsnum \<Rightarrow> string list \<Rightarrow> jsnum \<times> finance_row" where
  "processRow hs ri si totalRevenue values =
     (let row = mk_row hs values in
      case ri of
        None \<Rightarrow> (totalRevenue, \<lparr>fr_cells = row, fr_revenue = None\<rparr>)
      | Some r \<Rightarrow>
          let revenueValue = parseFloat (str_or (js_at values r) ''0'');
              totalRevenue' =
                (case si of
                   Some f \<Rightarrow>
                     let salesOrReturn = js_at values f in
                     if salesOrReturn = Some ''S'' then js_add totalRevenue revenueValue
                     else if salesOrReturn = Some ''R'' then js_sub totalRevenue revenueValue
                     else totalRevenue
                 | None \<Rightarrow> js_add totalRevenue revenueValue)
          in (totalRevenue', \<lparr>fr_cells = row, fr_revenue = Some revenueValue\<rparr>))"

definition processRows ::
  "string list \<Rightarrow> string list \<Rightarrow> jsnum \<times> finance_row list" where
  "processRows hs data_lines =
     foldl (\<lambda>(totalRevenue, rs) line.
              case processRow hs (revenueIdx hs) (salesReturnIdx hs) totalRevenue (js_split TAB line) of
                (totalRevenue', row) \<Rightarrow> (totalRevenue', rs @ [row]))
       (Fin 0, []) data_lines"

text \<open>
  The prologue decodes the payload; its \<open>gunzipSync\<close> is not inside a \<open>try\<close>, so a
  malformed stream leaves \<open>parseFinanceReport\<close> as an exception.
\<close>

definition finance_content :: "runtime \<Rightarrow> payload \<Rightarrow> string + string" where
  "finance_content rt data =
     (case data of
        Buffer b \<Rightarrow> if gzip_magic b then gunzip_text rt b else Inr (utf8 rt b)
      | Str s \<Rightarrow> Inr s
      | Json j \<Rightarrow> Inr j)"

definition parseFinanceReport :: "runtime \<Rightarrow> payload \<Rightarrow> 'm \<Rightarrow> string + 'm finance_report" where
  "parseFinanceReport rt data metadata =
     (case finance_content rt data of
        Inl e \<Rightarrow> Inl e
      | Inr content \<Rightarrow>
          let lines = report_lines content in
          if lines = [] then
            Inr \<lparr>fr_headers = [], fr_rows = [], fr_totalRevenue = Fin 0, fr_rowCount = 0,
                 fr_metadata = metadata\<rparr>
          else
            let hs = map trim (js_split TAB (hd lines)) in
            case processRows hs (tl lines) of
              (totalRevenue, rs) \<Rightarrow>
                Inr \<lparr>fr_headers = hs, fr_rows = rs, fr_totalRevenue = totalRevenue,
                     fr_rowCount = length rs, fr_metadata = metadata\<rparr>)"

section \<open>FinanceReportService: the fiscal calendar\<close>

text \<open>
  \<open>getFiscalPeriod(year, month)\<close> looks the month up in \<open>fiscalMonthMap\<close>, moves the
  year forward from October on, and prints \<open>`${fiscalYear}-${String(fiscalMonth).padStart(2, '0')}`\<close>.
  A month that is not a key of the table gives \<open>undefined\<close>, which prints as such.
\<close>

definition fiscalMonthMap :: "int \<Rightarrow> int option" where
  "fiscalMonthMap = map_of
     [(10, 1), (11, 2), (12, 3), (1, 4), (2, 5), (3, 6),
      (4, 7), (5, 8), (6, 9), (7, 10), (8, 11), (9, 12)]"

definition fiscalYear :: "int \<Rightarrow> int \<Rightarrow> int" where
  "fiscalYear year month = (if month \<ge> 10 then year + 1 else year)"

definition getFiscalPeriod :: "int \<Rightarrow> int \<Rightarrow> string" where
  "getFiscalPeriod year month =
     string_of_int (fiscalYear year month) @ ''-'' @
     padStart 2 CHR ''0''
       (case fiscalMonthMap month of None \<Rightarrow> ''undefined'' | Some fm \<Rightarrow> string_of_int fm)"

text \<open>
  The source has no function from a fiscal period back to the calendar; the round trip is
  stated against this inverse: fiscal months 1 to 3 are October to December of the year
  before the fiscal year, fiscal months 4 to 12 are January to September of the fiscal year.
\<close>

definition calendarOfFiscal :: "int \<times> int \<Rightarrow> int \<times> int" where
  "calendarOfFiscal p =
     (case p of (fy, fm) \<Rightarrow> (if fm \<le> 3 then fy - 1 else fy, (fm + 8) mod 12 + 1))"

section \<open>Notions of the specification and example inputs\<close>

text \<open>
  What the specification calls the contribution of a day: the sum of \<open>_proceedsUSD || 0\<close>
  over the rows of the day's report.
\<close>

definition dailyTotal :: "sales_report \<Rightarrow> jsnum" where
  "dailyTotal report = foldl (\<lambda>t row. js_add t (day_revenue row)) (Fin 0) (rows report)"



definition sum_list_js :: "jsnum list \<Rightarrow> jsnum" where
  "sum_list_js xs = foldl js_add (Fin 0) xs"

text \<open>Example reports are written as lists of lines of cells.\<close>

definition tsv_line :: "string list \<Rightarrow> string" where
  "tsv_line xs = (case xs of [] \<Rightarrow> [] | c # cs \<Rightarrow> foldl (\<lambda>acc x. acc @ [TAB] @ x) c cs)"

definition tsv_text :: "string list list \<Rightarrow> string" where
  "tsv_text ls = concat (map (\<lambda>l. tsv_line l @ [NL]) ls)"

text \<open>
  A runtime for the examples: text is ASCII, so decoding keeps the bytes, and every
  \<open>gunzipSync\<close> throws, as zlib does on a buffer that only begins like gzip.
\<close>

definition plain_runtime :: runtime where
  "plain_runtime = \<lparr>gunzipSync = (\<lambda>b. Inl ''incorrect header check''), utf8 = (\<lambda>b. b)\<rparr>"

text \<open>The sales row of claim C2, as a row object and as a one-row report.\<close>

definition idr_row :: "string \<rightharpoonup> string" where
  "idr_row = [''Developer Proceeds'' \<mapsto> ''3.62'', ''Customer Currency'' \<mapsto> ''IDR'',
              ''Customer Price'' \<mapsto> ''56126'']"

definition idr_report :: string where
  "idr_report = tsv_text
     [[''Developer Proceeds'', ''Customer Currency'', ''Customer Price''],
      [''3.62'', ''IDR'', ''56126'']]"

text \<open>A sale to a Polish customer: 19.99 PLN paid, 3.50 USD proceeds.\<close>

definition pln_report :: string where
  "pln_report = tsv_text
     [[''Title'', ''Developer Proceeds'', ''Customer Currency'', ''Customer Price''],
      [''App'', ''3.50'', ''PLN'', ''19.99'']]"

text \<open>A report whose proceeds column holds a text that is not a number, then an empty cell.\<close>

definition na_report :: string where
  "na_report = tsv_text
     [[''Developer Proceeds'', ''Title''],
      [''N/A'', ''App''],
      [[], ''App'']]"

text \<open>
  Financial reports: a sale of 100 and a return of 20 in USD; the same two lines with
  carriage return and line feed at the end of every line; the return written as one unit
  taken back, quantity -1 and extended share -20; a sale of 1000 in JPY.
\<close>

definition finance_headers :: "string list" where
  "finance_headers =
     [''Vendor Identifier'', ''Quantity'', ''Partner Share'', ''Extended Partner Share'',
      ''Partner Share Currency'', ''Sales or Return'']"

definition sale_return_report :: string where
  "sale_return_report = tsv_text
     [finance_headers,
      [''sku1'', ''1'', ''100'', ''100'', ''USD'', ''S''],
      [''sku1'', ''1'', ''20'', ''20'', ''USD'', ''R'']]"

definition crlf_sale_return_report :: string where
  "crlf_sale_return_report = concat (map (\<lambda>l. tsv_line l @ [CHR 0x0D, NL])
     [finance_headers,
      [''sku1'', ''1'', ''100'', ''100'', ''USD'', ''S''],
      [''sku1'', ''1'', ''20'', ''20'', ''USD'', ''R'']])"

definition sale_line :: string where
  "sale_line = tsv_line [''sku1'', ''1'', ''100'', ''100'', ''USD'', ''S'']"

definition negative_return_line :: string where
  "negative_return_line = tsv_line [''sku1'', ''-1'', ''20'', ''-20'', ''USD'', ''R'']"

definition negative_return_report :: string where
  "negative_return_report = tsv_text
     [finance_headers,
      [''sku1'', ''1'', ''100'', ''100'', ''USD'', ''S''],
      [''sku1'', ''-1'', ''20'', ''-20'', ''USD'', ''R'']]"



text \<open>
  Sales reports for the aggregation: one absurd row (also as a row object); a sale, a
  refund and an absurd row.
\<close>

definition absurd_report :: string where
  "absurd_report = tsv_text
     [[''SKU'', ''Developer Proceeds'', ''Customer Currency'', ''Country Code'', ''Units''],
      [''pro'', ''50000000'', ''USD'', ''US'', ''1'']]"

definition absurd_row :: sales_row where
  "absurd_row = enhanceRow
     [''SKU'' \<mapsto> ''pro'', ''Developer Proceeds'' \<mapsto> ''50000000'',
      ''Customer Currency'' \<mapsto> ''USD'', ''Country Code'' \<mapsto> ''US'', ''Units'' \<mapsto> ''1'']"

definition mixed_report :: string where
  "mixed_report = tsv_text
     [[''SKU'', ''Developer Proceeds'', ''Customer Currency'', ''Country Code'', ''Units''],
      [''pro'', ''5'', ''USD'', ''US'', ''1''],
      [''pro'', ''-2'', ''USD'', ''US'', ''-1''],
      [''pro'', ''2000000'', ''USD'', ''US'', ''1'']]"







section \<open>Verified properties\<close>

subsection \<open>The fiscal calendar\<close>

lemma months_enum: "{1..12::int} = {1,2,3,4,5,6,7,8,9,10,11,12}"
  by auto presburger

lemma fiscalMonthMap_cases:
  "m \<in> {1..12} \<Longrightarrow> fiscalMonthMap m = Some ((m + 2) mod 12 + 1)"
  unfolding months_enum by (auto simp: fiscalMonthMap_def)

lemma pad2_month:
  "f \<in> {1..12} \<Longrightarrow> length (padStart 2 CHR ''0'' (string_of_int f)) = 2"
  unfolding months_enum by (auto simp: padStart_def string_of_int_def string_of_nat.simps digit_char_def)

lemma pad2_inj:
  "f \<in> {1..12} \<Longrightarrow> g \<in> {1..12} \<Longrightarrow>
   padStart 2 CHR ''0'' (string_of_int f) = padStart 2 CHR ''0'' (string_of_int g) \<Longrightarrow> f = g"
  unfolding months_enum by (auto simp: padStart_def string_of_int_def string_of_nat.simps digit_char_def)

lemma append_suffix_eq:
  "xs @ s = ys @ t \<Longrightarrow> length s = length t \<Longrightarrow> s = t"
  by (metis append_eq_append_conv)

lemma fiscal_in_range: "m \<in> {1..12} \<Longrightarrow> (m + 2) mod 12 + 1 \<in> {1..12::int}"
  by auto

lemma fiscal_inj: "m \<in> {1..12} \<Longrightarrow> n \<in> {1..12} \<Longrightarrow> (m + 2) mod 12 = (n + 2) mod (12::int) \<Longrightarrow> m = n"
  unfolding months_enum by auto

lemma getFiscalPeriod_inj:
  assumes m: "m \<in> {1..12}" and n: "n \<in> {1..12}"
    and eq: "getFiscalPeriod y m = getFiscalPeriod y n"
  shows "m = n"
proof -
  let ?f = "\<lambda>k::int. (k + 2) mod 12 + 1"
  let ?p = "\<lambda>k. padStart 2 CHR ''0'' (string_of_int (?f k))"
  have "(string_of_int (fiscalYear y m) @ ''-'') @ ?p m = (string_of_int (fiscalYear y n) @ ''-'') @ ?p n"
    using eq by (simp add: getFiscalPeriod_def fiscalMonthMap_cases [OF m] fiscalMonthMap_cases [OF n])
  moreover have "length (?p m) = length (?p n)"
    using pad2_month [OF fiscal_in_range [OF m]] pad2_month [OF fiscal_in_range [OF n]] by simp
  ultimately have "?p m = ?p n" by (rule append_suffix_eq)
  then have "?f m = ?f n"
    by (rule pad2_inj [OF fiscal_in_range [OF m] fiscal_in_range [OF n]])
  then show ?thesis using fiscal_inj [OF m n] by simp
qed

text \<open>
  Claim C5. For each fixed year, \<open>getFiscalPeriod\<close> is one-to-one on the twelve calendar
  months: October to September map to the fiscal months 1 to 12, the fiscal period maps
  back to the calendar year and month through the inverse, the fiscal month is a bijection
  of \<open>{1..12}\<close>, the printed labels of different months differ, and the fiscal year is the
  calendar year plus one for exactly the months from October on.
\<close>

theorem getFiscalPeriod_bijection:
  "(\<forall>m \<in> {1..12}. \<exists>f. fiscalMonthMap m = Some f \<and> f \<in> {1..12}
        \<and> calendarOfFiscal (fiscalYear y m, f) = (y, m)
        \<and> (fiscalYear y m = y + 1 \<longleftrightarrow> 10 \<le> m)
        \<and> (fiscalYear y m = y \<longleftrightarrow> m < 10))
   \<and> map fiscalMonthMap [10, 11, 12, 1, 2, 3, 4, 5, 6, 7, 8, 9]
       = map Some [1, 2, 3, 4, 5, 6, 7, 8, 9, 10, 11, 12]
   \<and> bij_betw (\<lambda>m. the (fiscalMonthMap m)) {1..12} {1..12}
   \<and> inj_on (getFiscalPeriod y) {1..12}"
proof (intro conjI ballI)
  fix m :: int assume m: "m \<in> {1..12}"
  have "calendarOfFiscal (fiscalYear y m, (m + 2) mod 12 + 1) = (y, m)"
    using m unfolding months_enum by (auto simp: calendarOfFiscal_def fiscalYear_def)
  then show "\<exists>f. fiscalMonthMap m = Some f \<and> f \<in> {1..12}
        \<and> calendarOfFiscal (fiscalYear y m, f) = (y, m)
        \<and> (fiscalYear y m = y + 1 \<longleftrightarrow> 10 \<le> m)
        \<and> (fiscalYear y m = y \<longleftrightarrow> m < 10)"
    using fiscalMonthMap_cases [OF m] fiscal_in_range [OF m] by (simp add: fiscalYear_def)
next
  show "map fiscalMonthMap [10, 11, 12, 1, 2, 3, 4, 5, 6, 7, 8, 9]
       = map Some [1, 2, 3, 4, 5, 6, 7, 8, 9, 10, 11, 12]"
    by (simp add: fiscalMonthMap_def)
next
  have "inj_on (\<lambda>m. the (fiscalMonthMap m)) {1..12}"
    by (rule inj_onI) (use fiscal_inj in \<open>simp add: fiscalMonthMap_cases\<close>)
  moreover have "(\<lambda>m. the (fiscalMonthMap m)) ` {1..12} = {1..12}"
    unfolding months_enum by (auto simp: fiscalMonthMap_def)
  ultimately show "bij_betw (\<lambda>m. the (fiscalMonthMap m)) {1..12} {1..12}"
    by (simp add: bij_betw_def)
next
  show "inj_on (getFiscalPeriod y) {1..12}"
    by (rule inj_onI) (rule getFiscalPeriod_inj)
qed

theorem getFiscalPeriod_bijection_witness:
  "fiscalMonthMap 11 = Some 2 \<and> calendarOfFiscal (fiscalYear 2025 11, 2) = (2025, 11)
   \<and> fiscalYear 2025 11 = 2026 \<and> getFiscalPeriod 2025 11 = ''2026-02''
   \<and> getFiscalPeriod 2025 7 = ''2025-10''
   \<and> getFiscalPeriod 2025 11 \<noteq> getFiscalPeriod 2025 7"
proof -
  have m: "(11::int) \<in> {1..12}" and n: "(7::int) \<in> {1..12}" by simp_all
  from getFiscalPeriod_bijection [of 2025] have
    a: "\<exists>f. fiscalMonthMap 11 = Some f \<and> f \<in> {1..12}
        \<and> calendarOfFiscal (fiscalYear 2025 11, f) = (2025, 11)
        \<and> (fiscalYear 2025 11 = 2025 + 1 \<longleftrightarrow> (10::int) \<le> 11)
        \<and> (fiscalYear 2025 11 = 2025 \<longleftrightarrow> (11::int) < 10)"
    and i: "inj_on (getFiscalPeriod 2025) {1..12}"
    using m by blast+
  have "getFiscalPeriod 2025 11 \<noteq> getFiscalPeriod 2025 7"
    using inj_onD [OF i _ m n] by auto
  moreover have "fiscalMonthMap 11 = Some 2" by (simp add: fiscalMonthMap_def)
  moreover have "getFiscalPeriod 2025 11 = ''2026-02''" "getFiscalPeriod 2025 7 = ''2025-10''"
    by code_simp+
  ultimately show ?thesis using a by auto
qed

subsection \<open>Sales and subscription rows: the proceeds in USD\<close>

text \<open>
  In \<open>SubscriptionService\<close> the derived field is the parsed proceeds, whatever the currency
  of the customer. In \<open>FinanceService\<close> it is the parsed proceeds for a row in USD (or with
  no currency).
\<close>

lemma sub_parseRow_identity:
  "sub_proceedsUSD (sub_parseRow hs values) =
     parseFloat (str_or (mk_row hs values ''Developer Proceeds'')
                        (str_or (mk_row hs values ''Proceeds'') ''0''))"
  by (simp add: sub_parseRow_def Let_def)

lemma enhanceRow_usd:
  "str_or (row ''Customer Currency'') ''USD'' = ''USD'' \<Longrightarrow>
   proceedsUSD (enhanceRow row) = proceedsRaw (enhanceRow row)"
  by (simp add: enhanceRow_def Let_def highValueCurrencies_def)

text \<open>
  Claim C1. Every row of a sales or subscription report has \<open>_proceedsUSD\<close> equal to the
  parsed proceeds, for every customer currency. \<open>SubscriptionService.parseCSVReport\<close> does
  this for every row. \<open>FinanceService.parseCSVReport\<close> does not: for the Polish sale, with
  proceeds of 3.50 and a price of 19.99 PLN, the proceeds are not more than twice the price,
  so they are multiplied by the PLN rate 0.25 and \<open>_proceedsUSD\<close> is 0.875.
\<close>

theorem parseCSVReport_converts_pln:
  "sub_proceedsUSD (sub_parseRow hs values) =
     parseFloat (str_or (mk_row hs values ''Developer Proceeds'')
                        (str_or (mk_row hs values ''Proceeds'') ''0''))
   \<and> map sub_proceedsUSD (sub_rows (sub_parseCSVReport pln_report ''SALES'')) = [Fin (7 / 2)]
   \<and> map customerCurrency (rows (parseCSVReport pln_report ''SALES'')) = [''PLN'']
   \<and> map proceedsRaw (rows (parseCSVReport pln_report ''SALES'')) = [Fin (7 / 2)]
   \<and> map proceedsUSD (rows (parseCSVReport pln_report ''SALES'')) = [Fin (7 / 8)]"
proof (intro conjI)
  show "sub_proceedsUSD (sub_parseRow hs values) =
     parseFloat (str_or (mk_row hs values ''Developer Proceeds'')
                        (str_or (mk_row hs values ''Proceeds'') ''0''))"
    by (rule sub_parseRow_identity)
  show "map sub_proceedsUSD (sub_rows (sub_parseCSVReport pln_report ''SALES'')) = [Fin (7 / 2)]"
    by code_simp
  show "map customerCurrency (rows (parseCSVReport pln_report ''SALES'')) = [''PLN'']"
    by code_simp
  show "map proceedsRaw (rows (parseCSVReport pln_report ''SALES'')) = [Fin (7 / 2)]"
    by code_simp
  show "map proceedsUSD (rows (parseCSVReport pln_report ''SALES'')) = [Fin (7 / 8)]"
    by code_simp
qed

text \<open>
  Claim C2. For the row with \<open>Developer Proceeds\<close> 3.62, \<open>Customer Currency\<close> IDR and
  \<open>Customer Price\<close> 56126, \<open>FinanceService.parseCSVReport\<close> gives \<open>_proceedsUSD\<close> = 3.62:
  not 3.62 times the IDR rate and not 56126. The row is taken both as a row object and as
  the data line of a report.
\<close>

theorem parseCSVReport_idr_row:
  "proceedsUSD (enhanceRow idr_row) = Fin (181 / 50)
   \<and> map proceedsUSD (rows (parseCSVReport idr_report ''SALES'')) = [Fin (181 / 50)]
   \<and> customerCurrency (enhanceRow idr_row) = ''IDR''
   \<and> customerPrice (enhanceRow idr_row) = Fin 56126
   \<and> convertToUSD (Fin (181 / 50)) ''IDR'' = Fin (2353 / 10000000)
   \<and> proceedsUSD (enhanceRow idr_row) \<noteq> convertToUSD (Fin (181 / 50)) ''IDR''
   \<and> proceedsUSD (enhanceRow idr_row) \<noteq> Fin 56126"
  by code_simp

text \<open>
  Claim C8. Every row of \<open>parseCSVReport\<close> has a number in \<open>_proceedsUSD\<close>, and proceeds that
  do not parse give 0. An empty or missing cell does give 0, through \<open>|| '0'\<close>; a cell with a
  text that is not a number goes to \<open>parseFloat\<close> as it is and gives \<open>NaN\<close>, in both services.
\<close>

theorem parseCSVReport_unparseable_is_NaN:
  "parseFloat ''N/A'' = NaN
   \<and> map (\<lambda>row. cells row ''Developer Proceeds'') (rows (parseCSVReport na_report ''SALES''))
       = [Some ''N/A'', Some []]
   \<and> map proceedsUSD (rows (parseCSVReport na_report ''SALES'')) = [NaN, Fin 0]
   \<and> map sub_proceedsUSD (sub_rows (sub_parseCSVReport na_report ''SALES'')) = [NaN, Fin 0]"
  by code_simp

subsection \<open>Decompression\<close>

lemma decompressIfNeeded_never_raises: "\<exists>s. decompressIfNeeded rt data = Inr s"
  by (cases data) (auto simp: decompressIfNeeded_def try_catch_def split: sum.splits)

lemma sub_decompressIfNeeded_never_raises: "\<exists>s. sub_decompressIfNeeded rt data = Inr s"
  by (cases data) (auto simp: sub_decompressIfNeeded_def try_catch_def split: sum.splits)

lemma decompressIfNeeded_fallback:
  "gzip_magic b \<Longrightarrow> gunzipSync rt b = Inl e \<Longrightarrow> decompressIfNeeded rt (Buffer b) = Inr (utf8 rt b)"
  by (simp add: decompressIfNeeded_def try_catch_def gunzip_text_def)

lemma sub_decompressIfNeeded_fallback:
  "gzip_magic b \<Longrightarrow> gunzipSync rt b = Inl e \<Longrightarrow> sub_decompressIfNeeded rt (Buffer b) = Inr (utf8 rt b)"
  by (simp add: sub_decompressIfNeeded_def try_catch_def gunzip_text_def)

lemma parseFinanceReport_raises:
  "gzip_magic b \<Longrightarrow> gunzipSync rt b = Inl e \<Longrightarrow> parseFinanceReport rt (Buffer b) meta = Inl e"
  by (simp add: parseFinanceReport_def finance_content_def gunzip_text_def)

lemma gzip_magic_example: "gzip_magic [CHR 0x1F, CHR 0x8B, CHR 0x08]"
  by (simp add: gzip_magic_def js_at_def)

text \<open>
  Claim C9. Decompression never raises; a payload that begins with the gzip magic bytes
  and does not decompress comes back as its raw bytes read as text. Both
  \<open>decompressIfNeeded\<close> return a text for every runtime and payload. The prologue of
  \<open>parseFinanceReport\<close> has no \<open>try\<close>: on the three bytes \<open>1f 8b 08\<close>, where \<open>gunzipSync\<close> throws,
  the exception leaves \<open>parseFinanceReport\<close>, while \<open>decompressIfNeeded\<close> returns the bytes.
\<close>

theorem parseFinanceReport_malformed_gzip:
  "(\<exists>s. decompressIfNeeded rt data = Inr s)
   \<and> (\<exists>s. sub_decompressIfNeeded rt data = Inr s)
   \<and> gzip_magic [CHR 0x1F, CHR 0x8B, CHR 0x08]
   \<and> decompressIfNeeded plain_runtime (Buffer [CHR 0x1F, CHR 0x8B, CHR 0x08])
       = Inr [CHR 0x1F, CHR 0x8B, CHR 0x08]
   \<and> sub_decompressIfNeeded plain_runtime (Buffer [CHR 0x1F, CHR 0x8B, CHR 0x08])
       = Inr [CHR 0x1F, CHR 0x8B, CHR 0x08]
   \<and> parseFinanceReport plain_runtime (Buffer [CHR 0x1F, CHR 0x8B, CHR 0x08]) ()
       = Inl ''incorrect header check''"
proof -
  have g: "gunzipSync plain_runtime [CHR 0x1F, CHR 0x8B, CHR 0x08] = Inl ''incorrect header check''"
    and u: "utf8 plain_runtime [CHR 0x1F, CHR 0x8B, CHR 0x08] = [CHR 0x1F, CHR 0x8B, CHR 0x08]"
    by (simp_all add: plain_runtime_def)
  show ?thesis
    using decompressIfNeeded_never_raises [of rt data]
      sub_decompressIfNeeded_never_raises [of rt data]
      gzip_magic_example
      decompressIfNeeded_fallback [OF gzip_magic_example g]
      sub_decompressIfNeeded_fallback [OF gzip_magic_example g]
      parseFinanceReport_raises [OF gzip_magic_example g, of "()"]
    by (simp add: u)
qed

subsection \<open>Financial reports: sign and currency\<close>

lemma processRows_snoc:
  "processRows hs (ls @ [l]) =
     (case processRows hs ls of (t, rs) \<Rightarrow>
        case processRow hs (revenueIdx hs) (salesReturnIdx hs) t (js_split TAB l) of
          (t', row) \<Rightarrow> (t', rs @ [row]))"
  by (simp add: processRows_def case_prod_unfold)

lemma processRow_total:
  "fst (processRow hs (Some r) (Some f) t values) =
     (if js_at values f = Some ''S'' then js_add t (parseFloat (str_or (js_at values r) ''0''))
      else if js_at values f = Some ''R'' then js_sub t (parseFloat (str_or (js_at values r) ''0''))
      else t)"
  by (simp add: processRow_def Let_def)

lemma processRows_flag_total:
  assumes "revenueIdx hs = Some r" and "salesReturnIdx hs = Some f"
  shows "fst (processRows hs (ls @ [l])) =
     (if js_at (js_split TAB l) f = Some ''S''
        then js_add (fst (processRows hs ls)) (parseFloat (str_or (js_at (js_split TAB l) r) ''0''))
      else if js_at (js_split TAB l) f = Some ''R''
        then js_sub (fst (processRows hs ls)) (parseFloat (str_or (js_at (js_split TAB l) r) ''0''))
      else fst (processRows hs ls))"
proof -
  have "fst (processRows hs (ls @ [l])) =
      fst (processRow hs (Some r) (Some f) (fst (processRows hs ls)) (js_split TAB l))"
    using assms by (simp add: processRows_snoc split: prod.splits)
  then show ?thesis by (simp add: processRow_total)
qed

lemma finance_headers_revenueIdx: "revenueIdx finance_headers = Some 3"
  by code_simp

lemma finance_headers_salesReturnIdx: "salesReturnIdx finance_headers = Some 5"
  by code_simp


lemma sale_line_total: "fst (processRows finance_headers [sale_line]) = Fin 100"
  by code_simp

text \<open>
  Claim C3. In \<open>parseFinanceReport\<close>, a row flagged \<open>R\<close> contributes the negative of the
  magnitude of its partner share to \<open>totalRevenue\<close> and a row flagged \<open>S\<close> its positive
  magnitude; a sale of 100 and a return of 20 aggregate to 80. The loop adds the share of a
  line whose flag cell is exactly \<open>S\<close> and subtracts the share of a line whose flag cell is
  exactly \<open>R\<close>, with the sign the share has in the report and without trimming the flag.
  The report of the claim has \<open>totalRevenue\<close> 80. A return written the way the extended
  share of one unit taken back is written, quantity -1 and share -20, is flagged \<open>R\<close>, has
  a share of magnitude 20, and takes the total up from 100 to 120. The report of the claim
  with carriage returns at the ends of its lines has the flag cells \<open>S\<close> and \<open>R\<close> followed
  by a carriage return: neither line counts and \<open>totalRevenue\<close> is 0.
\<close>

theorem parseFinanceReport_negative_return:
  "map_sum id fr_totalRevenue
        (parseFinanceReport plain_runtime (Str sale_return_report) ()) = Inr (Fin 80)
   \<and> js_at (js_split TAB negative_return_line) 5 = Some ''R''
   \<and> parseFloat (str_or (js_at (js_split TAB negative_return_line) 3) ''0'') = Fin (- 20)
   \<and> fst (processRows finance_headers [sale_line]) = Fin 100
   \<and> fst (processRows finance_headers [sale_line, negative_return_line]) = Fin 120
   \<and> fst (processRows finance_headers [sale_line, negative_return_line])
       \<noteq> js_add (fst (processRows finance_headers [sale_line])) (Fin (- \<bar>- 20\<bar>))
   \<and> map_sum id fr_totalRevenue
        (parseFinanceReport plain_runtime (Str negative_return_report) ()) = Inr (Fin 120)
   \<and> map_sum id fr_totalRevenue
        (parseFinanceReport plain_runtime (Str crlf_sale_return_report) ()) = Inr (Fin 0)"
proof -
  note step = processRows_flag_total [OF finance_headers_revenueIdx finance_headers_salesReturnIdx]
  have e: "map_sum id fr_totalRevenue
        (parseFinanceReport plain_runtime (Str sale_return_report) ()) = Inr (Fin 80)"
    by code_simp
  have a: "js_at (js_split TAB negative_return_line) 5 = Some ''R''" by code_simp
  have b: "parseFloat (str_or (js_at (js_split TAB negative_return_line) 3) ''0'') = Fin (- 20)"
    by code_simp
  have c: "fst (processRows finance_headers ([sale_line] @ [negative_return_line])) = Fin 120"
    using step [where ls = "[sale_line]" and l = negative_return_line] a b sale_line_total
    by (simp add: js_sub_def)
  have d: "map_sum id fr_totalRevenue
        (parseFinanceReport plain_runtime (Str negative_return_report) ()) = Inr (Fin 120)"
    by code_simp
  have f: "map_sum id fr_totalRevenue
        (parseFinanceReport plain_runtime (Str crlf_sale_return_report) ()) = Inr (Fin 0)"
    by code_simp
  show ?thesis using e a b c d f sale_line_total by simp
qed





subsection \<open>Aggregation: the ceiling and the breakdowns\<close>

lemma calc_console: "snd (calculateRevenueMetricsFromData parsedData con) = con"
  by (simp add: calculateRevenueMetricsFromData_def Let_def)

lemma js_gt_not_lt: "js_gt a (Fin 1000000) \<Longrightarrow> \<not> js_lt a (Fin 1000000)"
  by (cases a) (auto simp: js_gt_def)

text \<open>
  The report of claim C7's counterexample: a single row of 50,000,000 USD. It adds nothing
  to \<open>totalRevenue\<close>, nothing is written to the console, and the row is in \<open>byProduct\<close>
  with its full amount.
\<close>

theorem calculateRevenueMetrics_absurd_row_not_logged:
  "rm_totalRevenue (fst (calculateRevenueMetricsFromData (parseCSVReport absurd_report ''SALES'') []))
     = Fin 0
   \<and> snd (calculateRevenueMetricsFromData (parseCSVReport absurd_report ''SALES'') []) = []
   \<and> map (\<lambda>e. (fst e, pd_revenue (snd e)))
        (byProduct (fst (calculateRevenueMetricsFromData (parseCSVReport absurd_report ''SALES'') [])))
      = [(''pro'', Fin 50000000)]"
  by code_simp

text \<open>
  Claim C7, as amended. A row whose revenue exceeds 1,000,000 leaves \<open>totalRevenue\<close> and
  \<open>totalUnits\<close> as they were; the rejection is silent, since
  \<open>calculateRevenueMetricsFromData\<close> writes nothing to the console for any input.
\<close>

theorem calculateRevenueMetrics_ceiling_silent:
  assumes "js_gt (row_revenue row) (Fin 1000000)"
  shows "cs_totalRevenue (calc_step st row) = cs_totalRevenue st
       \<and> cs_totalUnits (calc_step st row) = cs_totalUnits st
       \<and> snd (calculateRevenueMetricsFromData parsedData con) = con"
  using js_gt_not_lt [OF assms] by (simp add: calc_step_def Let_def calc_console)

theorem calculateRevenueMetrics_ceiling_silent_witness:
  "row_revenue absurd_row = Fin 50000000
   \<and> js_gt (row_revenue absurd_row) (Fin 1000000)
   \<and> cs_totalRevenue (calc_step calc_init absurd_row) = Fin 0
   \<and> cs_totalUnits (calc_step calc_init absurd_row) = Fin 0"
proof -
  have v: "row_revenue absurd_row = Fin 50000000" by code_simp
  then have g: "js_gt (row_revenue absurd_row) (Fin 1000000)" by (simp add: js_gt_def)
  from calculateRevenueMetrics_ceiling_silent [OF g, of calc_init]
  show ?thesis using v g by (simp add: calc_init_def)
qed

lemma map_get_map_set: "map_get (map_set m k v) k = Some v"
  by (induction m) (auto simp: map_get_def)

text \<open>
  Claim C10. Every row adds its revenue to the running sums of its product and of its
  country, whatever the revenue is. For the report with a sale of 5, a refund of 2 and a
  row of 2,000,000, \<open>totalRevenue\<close> is 5 and the revenues of \<open>byProduct\<close>, and those of
  \<open>byCountry\<close>, sum to 2,000,003.
\<close>

theorem calculateRevenueMetrics_breakdowns_unconditional:
  "pd_revenue (the (map_get (productMap (calc_step st row)) (row_product row)))
     = js_add (case map_get (productMap st) (row_product row) of
                 None \<Rightarrow> Fin 0 | Some d \<Rightarrow> pd_revenue d) (row_revenue row)
   \<and> cd_revenue (the (map_get (countryMap (calc_step st row)) (row_country row)))
     = js_add (case map_get (countryMap st) (row_country row) of
                 None \<Rightarrow> Fin 0 | Some d \<Rightarrow> cd_revenue d) (row_revenue row)
   \<and> rm_totalRevenue (fst (calculateRevenueMetricsFromData (parseCSVReport mixed_report ''SALES'') []))
     = Fin 5
   \<and> sum_list_js (map (\<lambda>e. pd_revenue (snd e))
        (byProduct (fst (calculateRevenueMetricsFromData (parseCSVReport mixed_report ''SALES'') []))))
     = Fin 2000003
   \<and> sum_list_js (map (\<lambda>e. cd_revenue (snd e))
        (byCountry (fst (calculateRevenueMetricsFromData (parseCSVReport mixed_report ''SALES'') []))))
     = Fin 2000003
   \<and> js_gt
        (sum_list_js (map (\<lambda>e. pd_revenue (snd e))
           (byProduct (fst (calculateRevenueMetricsFromData (parseCSVReport mixed_report ''SALES'') [])))))
        (rm_totalRevenue (fst (calculateRevenueMetricsFromData (parseCSVReport mixed_report ''SALES'') [])))"
proof -
  let ?m = "fst (calculateRevenueMetricsFromData (parseCSVReport mixed_report ''SALES'') [])"
  have p: "pd_revenue (the (map_get (productMap (calc_step st row)) (row_product row)))
     = js_add (case map_get (productMap st) (row_product row) of
                 None \<Rightarrow> Fin 0 | Some d \<Rightarrow> pd_revenue d) (row_revenue row)"
    by (cases "map_get (productMap st) (row_product row)")
       (simp_all add: calc_step_def Let_def map_get_map_set)
  have c: "cd_revenue (the (map_get (countryMap (calc_step st row)) (row_country row)))
     = js_add (case map_get (countryMap st) (row_country row) of
                 None \<Rightarrow> Fin 0 | Some d \<Rightarrow> cd_revenue d) (row_revenue row)"
    by (cases "map_get (countryMap st) (row_country row)")
       (simp_all add: calc_step_def Let_def map_get_map_set)
  have t: "rm_totalRevenue ?m = Fin 5"
    by code_simp
  have bp: "sum_list_js (map (\<lambda>e. pd_revenue (snd e)) (byProduct ?m)) = Fin 2000003"
    by code_simp
  have bc: "sum_list_js (map (\<lambda>e. cd_revenue (snd e)) (byCountry ?m)) = Fin 2000003"
    by code_simp
  show ?thesis
    unfolding t bp bc using p c by (simp add: js_gt_def)
qed


subsection \<open>Monthly revenue: days with data\<close>


lemma month_row_counters:
  "md_daysWithData (snd (foldl month_row (t, md) rs)) = md_daysWithData md
   \<and> md_totalRevenue (snd (foldl month_row (t, md) rs)) = md_totalRevenue md"
  by (induction rs arbitrary: t md) (simp_all add: month_row_def Let_def)






















end
